theory Spec2Isabelle
  imports Main
begin

section \<open>Python values, exceptions and dictionaries\<close>

text \<open>
  The provider of \<^verbatim>\<open>keep/providers/postgres_provider/postgres_provider.py\<close> receives
  its configuration and its call arguments as Python dictionaries from strings to values.
  The values that reach it are strings or \<^verbatim>\<open>None\<close> (the module's own entry point builds
  the configuration from \<^verbatim>\<open>os.environ.get\<close>, which yields exactly these).
  A dictionary is an association list read with \<open>map_of\<close>.
\<close>

datatype pyval = PyNone | PyStr string

type_synonym pydict = "(string \<times> pyval) list"

text \<open>\<^verbatim>\<open>d.get(k)\<close>: the value stored under \<open>k\<close>, or \<^verbatim>\<open>None\<close> when the key is absent.\<close>

definition dict_get :: "pydict \<Rightarrow> string \<Rightarrow> pyval" where
  "dict_get d k = (case map_of d k of None \<Rightarrow> PyNone | Some v \<Rightarrow> v)"

text \<open>Python truthiness, as tested by \<^verbatim>\<open>if not query\<close>.\<close>

fun truthy :: "pyval \<Rightarrow> bool" where
  "truthy PyNone = False"
| "truthy (PyStr s) = (s \<noteq> [])"

text \<open>
  The exceptions of the module. \<open>MissingArguments\<close> and \<open>UnexpectedArguments\<close> are the
  \<^verbatim>\<open>TypeError\<close>s of the generated dataclass constructor, \<open>ValidationError\<close> is pydantic's,
  carrying the names of the offending fields; \<open>DriverError\<close> stands for any exception of
  the database driver. All of them are subclasses of \<^verbatim>\<open>Exception\<close>.
\<close>

datatype exn =
    ValueError string
  | AttributeError string
  | TypeError string
  | MissingArguments "string list"
  | UnexpectedArguments "string list"
  | ValidationError "string list"
  | DriverError string

section \<open>The authentication configuration\<close>

text \<open>
  \<^verbatim>\<open>
  @pydantic.dataclasses.dataclass
  class PostgresProviderAuthConfig:
      username: str = dataclasses.field(metadata={"required": True, ...})
      password: str = dataclasses.field(metadata={"required": True, ...})
      host: str = dataclasses.field(metadata={"required": True, ...})
      database: str | None = dataclasses.field(metadata={"required": False, ...})
      port: str | None = dataclasses.field(default="5432", metadata={"required": False, ...})
  \<close>
\<close>

record auth_config =
  username :: string
  password :: string
  host :: string
  database :: "string option"
  port :: "string option"

text \<open>
  The constructor is generated from the field declarations. A field declared with
  \<^verbatim>\<open>dataclasses.field\<close> and neither \<^verbatim>\<open>default\<close> nor \<^verbatim>\<open>default_factory\<close> is a parameter
  without default value; the \<^verbatim>\<open>metadata\<close> dictionary is carried along and takes no part in
  the construction. So the parameters without default are the first four fields, and only
  \<open>port\<close> has one.
\<close>

definition required_fields :: "string list" where
  "required_fields = [''username'', ''password'', ''host'', ''database'']"

definition field_names :: "string list" where
  "field_names = required_fields @ [''port'']"

definition default_port :: pyval where
  "default_port = PyStr ''5432''"

text \<open>
  Whether a keyword that names no field is dropped or rejected depends on the release of
  pydantic, which is not part of the repository; it is a parameter of the model.
\<close>

datatype extra = Ignore | Forbid

text \<open>Validation of a field annotated \<^verbatim>\<open>str\<close>, and of one annotated \<^verbatim>\<open>str | None\<close>.\<close>

fun as_str :: "pyval \<Rightarrow> string option" where
  "as_str PyNone = None"
| "as_str (PyStr s) = Some s"

fun as_optional_str :: "pyval \<Rightarrow> string option" where
  "as_optional_str PyNone = None"
| "as_optional_str (PyStr s) = Some s"

text \<open>
  \<^verbatim>\<open>PostgresProviderAuthConfig(**kw)\<close>: the keywords are bound to the parameters (an
  unexpected keyword, then a missing parameter without default, is a \<^verbatim>\<open>TypeError\<close>), the
  default of \<open>port\<close> is filled in, and the bound values are validated against the
  annotations: \<^verbatim>\<open>None\<close> is not a \<^verbatim>\<open>str\<close>. A string is taken as it is, whatever its length.
\<close>

definition PostgresProviderAuthConfig :: "extra \<Rightarrow> pydict \<Rightarrow> exn + auth_config" where
  "PostgresProviderAuthConfig pol kw =
     (let unexpected = filter (\<lambda>k. k \<notin> set field_names) (map fst kw);
          missing = filter (\<lambda>k. map_of kw k = None) required_fields
      in if pol = Forbid \<and> unexpected \<noteq> [] then Inl (UnexpectedArguments unexpected)
         else if missing \<noteq> [] then Inl (MissingArguments missing)
         else
           let port_value = (case map_of kw ''port'' of None \<Rightarrow> default_port | Some v \<Rightarrow> v);
               invalid = filter (\<lambda>k. as_str (dict_get kw k) = None)
                           [''username'', ''password'', ''host'']
           in case (as_str (dict_get kw ''username''), as_str (dict_get kw ''password''),
                    as_str (dict_get kw ''host'')) of
                (Some u, Some p, Some h) \<Rightarrow>
                  Inr \<lparr>username = u, password = p, host = h,
                       database = as_optional_str (dict_get kw ''database''),
                       port = as_optional_str port_value\<rparr>
              | _ \<Rightarrow> Inl (ValidationError invalid))"

section \<open>The database driver\<close>

text \<open>
  \<^verbatim>\<open>psycopg2\<close> is an external library. Its side of the program is a \<open>world\<close>: the
  connections it has handed out, each open or closed, the result set held by each cursor,
  and the calls it has received, in order. A connection (a cursor) is named by its index
  in the table.
\<close>

datatype conn_status = Open | Closed

datatype sqlval = SqlNull | SqlInt int | SqlText string

type_synonym row = "sqlval list"

datatype event =
    Connect
  | Cursor nat
  | Execute nat string
  | Fetchall nat
  | CursorClose nat
  | Commit nat
  | Close nat

record world =
  conns :: "conn_status list"
  cursors :: "row list option list"
  events :: "event list"

text \<open>
  How the server and the network answer is not decided by the program: it is a parameter.
  Each fallible call of the driver asks the parameter, which sees the call and the whole
  world before it, hence all the history. \<open>None\<close> means that the call does not raise.
  The answer to a statement is an exception, or no result set (\<open>None\<close>), or its rows.
\<close>

record driver =
  on_connect :: "auth_config \<Rightarrow> world \<Rightarrow> exn option"
  on_cursor :: "nat \<Rightarrow> world \<Rightarrow> exn option"
  on_execute :: "nat \<Rightarrow> string \<Rightarrow> world \<Rightarrow> exn + row list option"
  on_fetchall :: "nat \<Rightarrow> world \<Rightarrow> exn option"
  on_cursor_close :: "nat \<Rightarrow> world \<Rightarrow> exn option"
  on_commit :: "nat \<Rightarrow> world \<Rightarrow> exn option"

section \<open>The provider and its computations\<close>

text \<open>
  The attributes of a \<^verbatim>\<open>PostgresProvider\<close> that the module reads or writes:
  \<^verbatim>\<open>self.config.authentication\<close>, \<^verbatim>\<open>self.authentication_config\<close> (absent until
  \<^verbatim>\<open>validate_config\<close> has assigned it), \<^verbatim>\<open>self.conn\<close> and the messages given to
  \<^verbatim>\<open>self.logger\<close>; together with the world of the driver.
\<close>

record pstate =
  authentication :: pydict
  authentication_config :: "auth_config option"
  conn :: "nat option"
  logged :: "string list"
  world :: world

text \<open>
  A method is a function from the state to a result and the state it leaves: \<open>Inl\<close> is a
  raised exception, and the changes made before the exception stay.
\<close>

type_synonym 'a comp = "pstate \<Rightarrow> (exn + 'a) \<times> pstate"

definition ret :: "'a \<Rightarrow> 'a comp" where
  "ret x s = (Inr x, s)"

definition raise :: "exn \<Rightarrow> 'a comp" where
  "raise e s = (Inl e, s)"

definition bnd :: "'a comp \<Rightarrow> ('a \<Rightarrow> 'b comp) \<Rightarrow> 'b comp" where
  "bnd m f s = (case m s of (Inl e, s') \<Rightarrow> (Inl e, s') | (Inr x, s') \<Rightarrow> f x s')"

text \<open>
  \<^verbatim>\<open>try: m finally: fin\<close>. The final block runs on every exit of \<open>m\<close>; when it raises,
  its exception replaces the outcome of \<open>m\<close>.
\<close>

definition try_finally :: "'a comp \<Rightarrow> unit comp \<Rightarrow> 'a comp" where
  "try_finally m fin s =
     (case m s of (r, s') \<Rightarrow>
        (case fin s' of (Inl e, s'') \<Rightarrow> (Inl e, s'') | (Inr _, s'') \<Rightarrow> (r, s'')))"

text \<open>\<^verbatim>\<open>try: m except Exception: handler\<close>; every exception of the model is an \<^verbatim>\<open>Exception\<close>.\<close>

definition try_except :: "'a comp \<Rightarrow> (exn \<Rightarrow> 'a comp) \<Rightarrow> 'a comp" where
  "try_except m handler s =
     (case m s of (Inl e, s') \<Rightarrow> handler e s' | (Inr x, s') \<Rightarrow> (Inr x, s'))"

subsection \<open>The calls into the driver\<close>

definition record_event :: "event \<Rightarrow> pstate \<Rightarrow> pstate" where
  "record_event ev s = s\<lparr>world := (world s)\<lparr>events := events (world s) @ [ev]\<rparr>\<rparr>"

text \<open>\<^verbatim>\<open>psycopg2.connect(...)\<close>: a new open connection, or an exception.\<close>

definition psycopg2_connect :: "driver \<Rightarrow> auth_config \<Rightarrow> nat comp" where
  "psycopg2_connect d ac s =
     (let s1 = record_event Connect s
      in case on_connect d ac (world s) of
           Some e \<Rightarrow> (Inl e, s1)
         | None \<Rightarrow>
             (Inr (length (conns (world s))),
              s1\<lparr>world := (world s1)\<lparr>conns := conns (world s) @ [Open]\<rparr>\<rparr>))"

text \<open>\<^verbatim>\<open>conn.cursor()\<close>: a new cursor, holding no result set.\<close>

definition connection_cursor :: "driver \<Rightarrow> nat \<Rightarrow> nat comp" where
  "connection_cursor d c s =
     (let s1 = record_event (Cursor c) s
      in case on_cursor d c (world s) of
           Some e \<Rightarrow> (Inl e, s1)
         | None \<Rightarrow>
             (Inr (length (cursors (world s))),
              s1\<lparr>world := (world s1)\<lparr>cursors := cursors (world s) @ [None]\<rparr>\<rparr>))"

text \<open>\<^verbatim>\<open>cur.execute(query)\<close>: the cursor holds the answer of the server.\<close>

definition cursor_execute :: "driver \<Rightarrow> nat \<Rightarrow> pyval \<Rightarrow> unit comp" where
  "cursor_execute d cur q s =
     (case q of
        PyNone \<Rightarrow> (Inl (TypeError ''argument 1 must be a string''), s)
      | PyStr sql \<Rightarrow>
          (let s1 = record_event (Execute cur sql) s
           in case on_execute d cur sql (world s) of
                Inl e \<Rightarrow> (Inl e, s1)
              | Inr res \<Rightarrow>
                  (Inr (), s1\<lparr>world := (world s1)\<lparr>cursors := (cursors (world s))[cur := res]\<rparr>\<rparr>)))"

text \<open>
  \<^verbatim>\<open>cur.fetchall()\<close>: all the rows that the cursor holds, in their order, as a list of
  tuples; the cursor is then at the end of its result set. It raises when the last
  statement produced no result set.
\<close>

definition cursor_fetchall :: "driver \<Rightarrow> nat \<Rightarrow> row list comp" where
  "cursor_fetchall d cur s =
     (let s1 = record_event (Fetchall cur) s
      in case on_fetchall d cur (world s) of
           Some e \<Rightarrow> (Inl e, s1)
         | None \<Rightarrow>
             (if cur < length (cursors (world s)) then
                (case cursors (world s) ! cur of
                   None \<Rightarrow> (Inl (DriverError ''no results to fetch''), s1)
                 | Some rows \<Rightarrow>
                     (Inr rows,
                      s1\<lparr>world := (world s1)\<lparr>cursors := (cursors (world s))[cur := Some []]\<rparr>\<rparr>))
              else (Inl (DriverError ''cursor already closed''), s1)))"

text \<open>\<^verbatim>\<open>cur.close()\<close>, also called by the cursor when a \<^verbatim>\<open>with\<close> block is left.\<close>

definition cursor_close :: "driver \<Rightarrow> nat \<Rightarrow> unit comp" where
  "cursor_close d cur s =
     (let s1 = record_event (CursorClose cur) s
      in case on_cursor_close d cur (world s) of
           Some e \<Rightarrow> (Inl e, s1)
         | None \<Rightarrow> (Inr (), s1))"

text \<open>\<^verbatim>\<open>conn.commit()\<close>.\<close>

definition connection_commit :: "driver \<Rightarrow> nat \<Rightarrow> unit comp" where
  "connection_commit d c s =
     (let s1 = record_event (Commit c) s
      in case on_commit d c (world s) of
           Some e \<Rightarrow> (Inl e, s1)
         | None \<Rightarrow> (Inr (), s1))"

text \<open>
  \<^verbatim>\<open>conn.close()\<close>. In psycopg2 closing a connection is an unconditional change of the
  connection object: it marks the connection closed and returns \<^verbatim>\<open>None\<close>, and closing a
  closed connection does nothing.
\<close>

definition connection_close :: "nat \<Rightarrow> unit comp" where
  "connection_close c s =
     (let s1 = record_event (Close c) s
      in (Inr (), s1\<lparr>world := (world s1)\<lparr>conns := (conns (world s))[c := Closed]\<rparr>\<rparr>))"

text \<open>
  \<^verbatim>\<open>with conn.cursor() as cur: body\<close>: the cursor is created, the body runs, and on
  every exit of the body the cursor's \<^verbatim>\<open>__exit__\<close> closes it and lets the exception pass.
\<close>

definition with_cursor :: "driver \<Rightarrow> nat \<Rightarrow> (nat \<Rightarrow> 'a comp) \<Rightarrow> 'a comp" where
  "with_cursor d c body =
     bnd (connection_cursor d c) (\<lambda>cur. try_finally (body cur) (cursor_close d cur))"

subsection \<open>The methods of \<^verbatim>\<open>PostgresProvider\<close>\<close>

text \<open>
  Modelled from the spec: \<^verbatim>\<open>BaseProvider.__init__\<close> (keep/providers/base/base_provider.py)
  is not among the sources; it is taken to store the configuration and a logger. Then
  \<^verbatim>\<open>__init__\<close> of the provider sets \<^verbatim>\<open>self.conn = None\<close>.
\<close>

definition init :: "pydict \<Rightarrow> world \<Rightarrow> pstate" where
  "init auth w =
     \<lparr>authentication = auth, authentication_config = None, conn = None, logged = [],
      world = w\<rparr>"

text \<open>
  Modelled from the spec: \<^verbatim>\<open>self.logger\<close> is set by \<^verbatim>\<open>BaseProvider\<close>, which is not among
  the sources; it is taken to be a standard logger, whose \<^verbatim>\<open>exception\<close> method records the
  message and returns.
\<close>

definition logger_exception :: "string \<Rightarrow> unit comp" where
  "logger_exception msg s = (Inr (), s\<lparr>logged := logged s @ [msg]\<rparr>)"

text \<open>Reading \<^verbatim>\<open>self.authentication_config\<close>, an \<^verbatim>\<open>AttributeError\<close> while it is not set.\<close>

definition get_authentication_config :: "auth_config comp" where
  "get_authentication_config s =
     (case authentication_config s of
        None \<Rightarrow> (Inl (AttributeError ''authentication_config''), s)
      | Some ac \<Rightarrow> (Inr ac, s))"

text \<open>
  \<^verbatim>\<open>
  def __init_connection(self):
      conn = psycopg2.connect(dbname=..., user=..., password=..., host=..., port=...)
      self.conn = conn
      return conn
  \<close>
\<close>

definition init_connection :: "driver \<Rightarrow> nat comp" where
  "init_connection d =
     bnd get_authentication_config (\<lambda>ac.
     bnd (psycopg2_connect d ac) (\<lambda>c.
     bnd (\<lambda>s. (Inr (), s\<lparr>conn := Some c\<rparr>)) (\<lambda>_.
     ret c)))"

text \<open>
  \<^verbatim>\<open>
  def dispose(self):
      try:
          self.conn.close()
      except Exception:
          self.logger.exception("Error closing Postgres connection")
  \<close>
  \<^verbatim>\<open>self.conn.close()\<close> is an \<^verbatim>\<open>AttributeError\<close> when \<^verbatim>\<open>self.conn\<close> is \<^verbatim>\<open>None\<close>.
\<close>

definition close_stored_connection :: "unit comp" where
  "close_stored_connection s =
     (case conn s of
        None \<Rightarrow> (Inl (AttributeError ''NoneType object has no attribute close''), s)
      | Some c \<Rightarrow> connection_close c s)"

definition dispose :: "unit comp" where
  "dispose =
     try_except close_stored_connection
       (\<lambda>e. logger_exception ''Error closing Postgres connection'')"

text \<open>
  \<^verbatim>\<open>
  def validate_config(self):
      self.authentication_config = PostgresProviderAuthConfig(**self.config.authentication)
  \<close>
\<close>

definition validate_config :: "extra \<Rightarrow> unit comp" where
  "validate_config pol s =
     (case PostgresProviderAuthConfig pol (authentication s) of
        Inl e \<Rightarrow> (Inl e, s)
      | Inr ac \<Rightarrow> (Inr (), s\<lparr>authentication_config := Some ac\<rparr>))"

text \<open>
  \<^verbatim>\<open>
  def query(self, **kwargs):
      query = kwargs.get("query")
      if not query:
          raise ValueError("Query is required")
      conn = self.__init_connection()
      try:
          with conn.cursor() as cur:
              cur = conn.cursor()
              cur.execute(query)
              results = cur.fetchall()
              cur.close()
              conn.close()
          return list(results)
      finally:
          conn.close()
  \<close>
  The cursor of the \<^verbatim>\<open>with\<close> statement is not the one that runs the statement: the name
  is bound again to a second cursor.
\<close>

definition query :: "driver \<Rightarrow> pydict \<Rightarrow> row list comp" where
  "query d kwargs =
     (let query = dict_get kwargs ''query''
      in if \<not> truthy query then raise (ValueError ''Query is required'')
         else
           bnd (init_connection d) (\<lambda>conn.
           try_finally
             (bnd (with_cursor d conn (\<lambda>_.
                     bnd (connection_cursor d conn) (\<lambda>cur.
                     bnd (cursor_execute d cur query) (\<lambda>_.
                     bnd (cursor_fetchall d cur) (\<lambda>results.
                     bnd (cursor_close d cur) (\<lambda>_.
                     bnd (connection_close conn) (\<lambda>_.
                     ret results)))))))
                (\<lambda>results. ret results))
             (connection_close conn)))"

text \<open>
  \<^verbatim>\<open>
  def notify(self, **kwargs):
      query = kwargs.get("query")
      if not query:
          raise ValueError("Query is required")
      conn = self.__init_connection()
      try:
          with conn.cursor() as cur:
              cur = conn.cursor()
              cur.execute(query)
              cur.close()
              conn.commit()
              conn.close()
      finally:
          conn.close()
  \<close>
\<close>

definition notify :: "driver \<Rightarrow> pydict \<Rightarrow> unit comp" where
  "notify d kwargs =
     (let query = dict_get kwargs ''query''
      in if \<not> truthy query then raise (ValueError ''Query is required'')
         else
           bnd (init_connection d) (\<lambda>conn.
           try_finally
             (with_cursor d conn (\<lambda>_.
                bnd (connection_cursor d conn) (\<lambda>cur.
                bnd (cursor_execute d cur query) (\<lambda>_.
                bnd (cursor_close d cur) (\<lambda>_.
                bnd (connection_commit d conn) (\<lambda>_.
                connection_close conn))))))
             (connection_close conn)))"

section \<open>Notions used in the statements\<close>

text \<open>
  A call opens a connection exactly when the authentication configuration is set and the
  driver does not refuse the connection.
\<close>

definition connects :: "driver \<Rightarrow> pstate \<Rightarrow> bool" where
  "connects d s =
     (case authentication_config s of
        None \<Rightarrow> False
      | Some ac \<Rightarrow> on_connect d ac (world s) = None)"

text \<open>The commits that the driver has received so far, in order.\<close>

fun is_commit :: "event \<Rightarrow> bool" where
  "is_commit (Commit c) = True"
| "is_commit _ = False"

definition commits :: "pstate \<Rightarrow> event list" where
  "commits s = filter is_commit (events (world s))"

text \<open>
  The part of the state that the cursor operations leave alone: the table of connections,
  the attributes of the provider and the commits.
\<close>

definition frame ::
  "pstate \<Rightarrow> conn_status list \<times> nat option \<times> event list \<times> string list \<times> pydict \<times> auth_config option"
  where
  "frame s =
     (conns (world s), conn s, commits s, logged s, authentication s, authentication_config s)"

text \<open>
  Triples for computations that may raise: from a state satisfying \<open>P\<close>, a normal return
  with value \<open>x\<close> leaves a state satisfying \<open>Q x\<close> and an exception one satisfying \<open>E\<close>.
  An invariant is preserved whatever the outcome.
\<close>

definition hoareE ::
  "(pstate \<Rightarrow> bool) \<Rightarrow> 'a comp \<Rightarrow> ('a \<Rightarrow> pstate \<Rightarrow> bool) \<Rightarrow> (pstate \<Rightarrow> bool) \<Rightarrow> bool"
  where
  "hoareE P m Q E \<longleftrightarrow>
     (\<forall>s. P s \<longrightarrow> (case m s of (Inl e, s') \<Rightarrow> E s' | (Inr x, s') \<Rightarrow> Q x s'))"

definition preserves :: "(pstate \<Rightarrow> bool) \<Rightarrow> 'a comp \<Rightarrow> bool" where
  "preserves I m \<longleftrightarrow> (\<forall>s. I s \<longrightarrow> I (snd (m s)))"

text \<open>
  The state between the opening of a connection and the end of the call: the connection
  is the last of the table, after the connections \<open>base\<close> that existed before, and it is
  the one stored in the provider.
\<close>

definition holds_connection :: "conn_status list \<Rightarrow> pstate \<Rightarrow> bool" where
  "holds_connection base s \<longleftrightarrow>
     conn s = Some (length base) \<and> (\<exists>st. conns (world s) = base @ [st])"



text \<open>
  The blocks that \<^verbatim>\<open>query\<close> and \<^verbatim>\<open>notify\<close> run under \<^verbatim>\<open>try\<close>, for a statement \<open>q\<close> and the
  connection \<open>c\<close> of the call; they are named so that the proofs can refer to them.
\<close>

definition query_block :: "driver \<Rightarrow> pyval \<Rightarrow> nat \<Rightarrow> row list comp" where
  "query_block d q c =
     bnd (with_cursor d c (\<lambda>_.
             bnd (connection_cursor d c) (\<lambda>cur.
             bnd (cursor_execute d cur q) (\<lambda>_.
             bnd (cursor_fetchall d cur) (\<lambda>results.
             bnd (cursor_close d cur) (\<lambda>_.
             bnd (connection_close c) (\<lambda>_.
             ret results)))))))
        (\<lambda>results. ret results)"

definition notify_block :: "driver \<Rightarrow> pyval \<Rightarrow> nat \<Rightarrow> unit comp" where
  "notify_block d q c =
     with_cursor d c (\<lambda>_.
        bnd (connection_cursor d c) (\<lambda>cur.
        bnd (cursor_execute d cur q) (\<lambda>_.
        bnd (cursor_close d cur) (\<lambda>_.
        bnd (connection_commit d c) (\<lambda>_.
        connection_close c)))))"

subsection \<open>Concrete drivers and states\<close>

text \<open>A driver that never raises and answers every statement with the same result.\<close>

definition reliable_driver :: "row list option \<Rightarrow> driver" where
  "reliable_driver answer =
     \<lparr>on_connect = (\<lambda>_ _. None), on_cursor = (\<lambda>_ _. None),
      on_execute = (\<lambda>_ _ _. Inr answer), on_fetchall = (\<lambda>_ _. None),
      on_cursor_close = (\<lambda>_ _. None), on_commit = (\<lambda>_ _. None)\<rparr>"

text \<open>A driver whose server rejects every statement.\<close>

definition rejecting_driver :: driver where
  "rejecting_driver =
     (reliable_driver None)\<lparr>on_execute := (\<lambda>_ _ _. Inl (DriverError ''syntax error''))\<rparr>"

definition empty_world :: world where
  "empty_world = \<lparr>conns = [], cursors = [], events = []\<rparr>"

text \<open>The configuration of the scenario given in the specification, and a provider built on it.\<close>

definition sample_authentication :: pydict where
  "sample_authentication =
     [(''username'', PyStr ''u''), (''password'', PyStr ''p''),
      (''host'', PyStr ''localhost''), (''database'', PyStr ''db'')]"

definition sample_config :: auth_config where
  "sample_config =
     \<lparr>username = ''u'', password = ''p'', host = ''localhost'', database = Some ''db'',
      port = Some ''5432''\<rparr>"

definition sample_provider :: pstate where
  "sample_provider =
     (init sample_authentication empty_world)\<lparr>authentication_config := Some sample_config\<rparr>"

section \<open>Validation of the configuration\<close>

lemmas config_defs = PostgresProviderAuthConfig_def required_fields_def field_names_def
  dict_get_def default_port_def

lemma as_str_Some: "as_str v = Some x \<longleftrightarrow> v = PyStr x"
  by (cases v) auto

text \<open>A parameter without default that the keywords do not supply stops the constructor.\<close>

lemma constructor_missing:
  assumes "k \<in> set required_fields" and "map_of kw k = None"
  shows "\<exists>ks. PostgresProviderAuthConfig pol kw = Inl (UnexpectedArguments ks) \<or>
           (PostgresProviderAuthConfig pol kw = Inl (MissingArguments ks) \<and> k \<in> set ks)"
proof -
  let ?missing = "filter (\<lambda>k. map_of kw k = None) required_fields"
  from assms have in_missing: "k \<in> set ?missing" by simp
  from assms have "?missing \<noteq> []" by (auto simp: filter_empty_conv)
  with in_missing show ?thesis
    unfolding PostgresProviderAuthConfig_def Let_def by auto
qed

text \<open>What a constructed configuration says about the keywords it was built from.\<close>

lemma constructor_success:
  assumes "PostgresProviderAuthConfig pol kw = Inr ac"
  shows "map_of kw ''username'' = Some (PyStr (username ac))"
    and "map_of kw ''password'' = Some (PyStr (password ac))"
    and "map_of kw ''host'' = Some (PyStr (host ac))"
    and "map_of kw ''database'' \<noteq> None"
    and "database ac = as_optional_str (dict_get kw ''database'')"
    and "port ac = (case map_of kw ''port'' of None \<Rightarrow> Some ''5432'' | Some v \<Rightarrow> as_optional_str v)"
  using assms
  by (auto simp: config_defs Let_def as_str_Some split: if_splits option.splits pyval.splits)

lemma validate_config_sample:
  "validate_config pol (init sample_authentication empty_world) = (Inr (), sample_provider)"
  by (simp add: validate_config_def config_defs init_def sample_authentication_def
      sample_provider_def sample_config_def)

text \<open>
  C6. When the configuration mapping lacks one of the keys \<open>username\<close>, \<open>password\<close>,
  \<open>host\<close>, \<^verbatim>\<open>validate_config\<close> raises the constructor's error: the missing key is among
  the parameters that the error reports (or, under a release of pydantic that rejects
  unknown keywords, the error reports those first). The state is returned as it was:
  the driver has received no call and no attribute has been assigned.
\<close>

theorem validate_config_missing_required:
  assumes "k \<in> {''username'', ''password'', ''host''}"
    and "map_of (authentication s) k = None"
  shows "\<exists>ks. validate_config pol s = (Inl (UnexpectedArguments ks), s) \<or>
           (validate_config pol s = (Inl (MissingArguments ks), s) \<and> k \<in> set ks)"
proof -
  from assms(1) have "k \<in> set required_fields" by (auto simp: required_fields_def)
  from constructor_missing [OF this assms(2), of pol] show ?thesis
    by (auto simp: validate_config_def)
qed

theorem validate_config_missing_required_witness:
  "''password'' \<in> {''username'', ''password'', ''host''} \<and>
   map_of (authentication (init [(''username'', PyStr ''u''), (''host'', PyStr ''h'')] empty_world))
     ''password'' = None \<and>
   validate_config Ignore (init [(''username'', PyStr ''u''), (''host'', PyStr ''h'')] empty_world)
     = (Inl (MissingArguments [''password'', ''database'']),
        init [(''username'', PyStr ''u''), (''host'', PyStr ''h'')] empty_world)"
  using validate_config_missing_required
    [of "''password''" "init [(''username'', PyStr ''u''), (''host'', PyStr ''h'')] empty_world" Ignore]
  by (simp add: validate_config_def config_defs init_def)

text \<open>
  C9. When the configuration mapping has no \<open>port\<close> key and validation succeeds, the port
  of the resulting authentication configuration is the string \<open>5432\<close>.
\<close>

theorem validate_config_default_port:
  assumes "map_of (authentication s) ''port'' = None"
    and "validate_config pol s = (Inr (), s')"
  shows "\<exists>ac. authentication_config s' = Some ac \<and> port ac = Some ''5432''"
proof -
  from assms(2) obtain ac where ac: "PostgresProviderAuthConfig pol (authentication s) = Inr ac"
    and s': "s' = s\<lparr>authentication_config := Some ac\<rparr>"
    by (auto simp: validate_config_def split: sum.splits)
  from constructor_success(6) [OF ac] assms(1) have "port ac = Some ''5432''" by simp
  with s' show ?thesis by simp
qed

theorem validate_config_default_port_witness:
  "map_of (authentication (init sample_authentication empty_world)) ''port'' = None \<and>
   validate_config Ignore (init sample_authentication empty_world) = (Inr (), sample_provider) \<and>
   (\<exists>ac. authentication_config sample_provider = Some ac \<and> port ac = Some ''5432'')"
proof -
  have a: "map_of (authentication (init sample_authentication empty_world)) ''port'' = None"
    by (simp add: init_def sample_authentication_def)
  note b = validate_config_sample [of Ignore]
  from validate_config_default_port [OF a b] a b show ?thesis by blast
qed

text \<open>
  C3, as stated, fails: a configuration whose \<open>username\<close> is the empty string passes
  validation. The annotation \<^verbatim>\<open>str\<close> puts no bound on the length.
\<close>

theorem validate_config_accepts_empty_username:
  "map_of [(''username'', PyStr ''''), (''password'', PyStr ''p''), (''host'', PyStr ''localhost''),
           (''database'', PyStr ''db'')] ''username'' = Some (PyStr '''') \<and>
   fst (validate_config Ignore
     (init [(''username'', PyStr ''''), (''password'', PyStr ''p''), (''host'', PyStr ''localhost''),
            (''database'', PyStr ''db'')] empty_world)) = Inr ()"
  by (simp add: validate_config_def config_defs init_def)

text \<open>
  C3, amended. When validation succeeds, each of \<open>username\<close>, \<open>password\<close> and \<open>host\<close> is
  present in the configuration mapping with a string value (not \<^verbatim>\<open>None\<close>), and the
  authentication configuration holds that string unchanged; the string may be empty.
\<close>

theorem validate_config_success_required_strings:
  assumes "validate_config pol s = (Inr (), s')"
  shows "\<exists>ac. authentication_config s' = Some ac \<and>
           map_of (authentication s) ''username'' = Some (PyStr (username ac)) \<and>
           map_of (authentication s) ''password'' = Some (PyStr (password ac)) \<and>
           map_of (authentication s) ''host'' = Some (PyStr (host ac))"
proof -
  from assms obtain ac where ac: "PostgresProviderAuthConfig pol (authentication s) = Inr ac"
    and s': "s' = s\<lparr>authentication_config := Some ac\<rparr>"
    by (auto simp: validate_config_def split: sum.splits)
  from constructor_success(1-3) [OF ac] s' show ?thesis by simp
qed

theorem validate_config_success_required_strings_witness:
  "validate_config Ignore (init sample_authentication empty_world) = (Inr (), sample_provider) \<and>
   (\<exists>ac. authentication_config sample_provider = Some ac \<and>
      map_of sample_authentication ''username'' = Some (PyStr (username ac)) \<and>
      map_of sample_authentication ''password'' = Some (PyStr (password ac)) \<and>
      map_of sample_authentication ''host'' = Some (PyStr (host ac)))"
proof -
  note b = validate_config_sample [of Ignore]
  from validate_config_success_required_strings [OF b] b show ?thesis
    by (simp add: init_def)
qed

text \<open>
  C4 fails on the code: \<open>database\<close> is declared without a default, so the constructor
  requires the keyword, although the field's own metadata says \<^verbatim>\<open>"required": False\<close>. A
  configuration with \<open>username\<close>, \<open>password\<close> and \<open>host\<close> and no \<open>database\<close> key is
  rejected, and no authentication configuration is produced.
\<close>

theorem validate_config_without_database_fails:
  "validate_config pol
     (init [(''username'', PyStr ''u''), (''password'', PyStr ''p''), (''host'', PyStr ''localhost'')] w)
   = (Inl (MissingArguments [''database'']),
      init [(''username'', PyStr ''u''), (''password'', PyStr ''p''), (''host'', PyStr ''localhost'')] w)"
  by (simp add: validate_config_def config_defs init_def)

section \<open>The precondition on the statement\<close>

text \<open>The keyword \<open>query\<close> is falsy exactly when it is absent, \<^verbatim>\<open>None\<close> or the empty string.\<close>

lemma not_truthy_query:
  "\<not> truthy (dict_get kwargs ''query'') \<longleftrightarrow>
     map_of kwargs ''query'' \<in> {None, Some PyNone, Some (PyStr [])}"
  by (cases "map_of kwargs ''query''"; cases "dict_get kwargs ''query''")
     (auto simp: dict_get_def)

lemma query_rejects: "\<not> truthy (dict_get kwargs ''query'') \<Longrightarrow>
    query d kwargs s = (Inl (ValueError ''Query is required''), s)"
  by (simp add: query_def raise_def)

lemma notify_rejects: "\<not> truthy (dict_get kwargs ''query'') \<Longrightarrow>
    notify d kwargs s = (Inl (ValueError ''Query is required''), s)"
  by (simp add: notify_def raise_def)

text \<open>
  C2. When the keyword \<open>query\<close> is absent, \<^verbatim>\<open>None\<close> or the empty string, \<^verbatim>\<open>query\<close> and
  \<^verbatim>\<open>notify\<close> raise \<^verbatim>\<open>ValueError("Query is required")\<close>, and the world of the driver is
  what it was: the driver has received no call, so no connection was attempted.
\<close>

theorem empty_query_raises_without_io:
  assumes "map_of kwargs ''query'' \<in> {None, Some PyNone, Some (PyStr [])}"
  shows "fst (query d kwargs s) = Inl (ValueError ''Query is required'') \<and>
         world (snd (query d kwargs s)) = world s \<and>
         fst (notify d kwargs s) = Inl (ValueError ''Query is required'') \<and>
         world (snd (notify d kwargs s)) = world s"
proof -
  from assms have "\<not> truthy (dict_get kwargs ''query'')"
    by (simp only: not_truthy_query)
  then show ?thesis by (simp add: query_rejects notify_rejects)
qed

theorem empty_query_raises_without_io_witness:
  "map_of [(''query'', PyStr [])] ''query'' \<in> {None, Some PyNone, Some (PyStr [])} \<and>
   fst (query (reliable_driver None) [(''query'', PyStr [])] sample_provider)
     = Inl (ValueError ''Query is required'') \<and>
   events (world (snd (query (reliable_driver None) [(''query'', PyStr [])] sample_provider))) = [] \<and>
   fst (notify (reliable_driver None) [(''query'', PyStr [])] sample_provider)
     = Inl (ValueError ''Query is required'') \<and>
   events (world (snd (notify (reliable_driver None) [(''query'', PyStr [])] sample_provider))) = []"
  using empty_query_raises_without_io
    [of "[(''query'', PyStr [])]" "reliable_driver None" sample_provider]
  by (simp add: sample_provider_def init_def empty_world_def)

text \<open>
  C10. On that path the whole state of the provider is returned as it was; in particular
  the stored connection \<^verbatim>\<open>self.conn\<close> is not assigned.
\<close>

theorem empty_query_leaves_state:
  assumes "map_of kwargs ''query'' \<in> {None, Some PyNone, Some (PyStr [])}"
  shows "snd (query d kwargs s) = s \<and> snd (notify d kwargs s) = s \<and>
         conn (snd (query d kwargs s)) = conn s \<and> conn (snd (notify d kwargs s)) = conn s"
proof -
  from assms have "\<not> truthy (dict_get kwargs ''query'')"
    by (simp only: not_truthy_query)
  then show ?thesis by (simp add: query_rejects notify_rejects)
qed

theorem empty_query_leaves_state_witness:
  "map_of [] ''query'' \<in> {None, Some PyNone, Some (PyStr [])} \<and>
   snd (query rejecting_driver [] (sample_provider\<lparr>conn := Some 7\<rparr>))
     = sample_provider\<lparr>conn := Some 7\<rparr> \<and>
   conn (snd (notify rejecting_driver [] (sample_provider\<lparr>conn := Some 7\<rparr>))) = Some 7"
  using empty_query_leaves_state [of "[]" rejecting_driver "sample_provider\<lparr>conn := Some 7\<rparr>"]
  by simp

section \<open>Disposal\<close>

text \<open>A handler that returns makes the whole \<^verbatim>\<open>try\<close> statement return, whatever the body does.\<close>

lemma try_except_returns:
  assumes "\<And>e s. \<exists>x. fst (handler e s) = Inr x"
  shows "\<exists>x. fst (try_except m handler s) = Inr x"
proof (cases "m s")
  case (Pair r s')
  then show ?thesis using assms by (cases r) (simp_all add: try_except_def)
qed

lemma logging_handler_returns:
  "\<exists>x. fst (try_except m (\<lambda>e. logger_exception msg) s) = Inr x"
  by (rule try_except_returns) (simp add: logger_exception_def)

text \<open>
  C8. \<^verbatim>\<open>dispose\<close> returns normally from every state. When no connection is stored the
  failed close is caught and its message logged; when one is stored it is closed.
\<close>

theorem dispose_never_raises:
  "fst (dispose s) = Inr () \<and>
   logged (snd (dispose s)) =
     (case conn s of
        None \<Rightarrow> logged s @ [''Error closing Postgres connection'']
      | Some c \<Rightarrow> logged s) \<and>
   conns (world (snd (dispose s))) =
     (case conn s of
        None \<Rightarrow> conns (world s)
      | Some c \<Rightarrow> (conns (world s))[c := Closed])"
  by (cases "conn s")
     (simp_all add: dispose_def try_except_def close_stored_connection_def
        connection_close_def logger_exception_def record_event_def)

theorem dispose_never_raises_witness:
  "fst (dispose (init sample_authentication empty_world)) = Inr () \<and>
   logged (snd (dispose (init sample_authentication empty_world)))
     = [''Error closing Postgres connection'']"
  using dispose_never_raises [of "init sample_authentication empty_world"]
  by (simp add: init_def)

section \<open>Rules for computations\<close>

lemma hoareE_I:
  assumes "\<And>s e s'. P s \<Longrightarrow> m s = (Inl e, s') \<Longrightarrow> E s'"
    and "\<And>s x s'. P s \<Longrightarrow> m s = (Inr x, s') \<Longrightarrow> Q x s'"
  shows "hoareE P m Q E"
  using assms by (auto simp: hoareE_def split: prod.splits sum.splits)

lemma hoareE_raised: "hoareE P m Q E \<Longrightarrow> P s \<Longrightarrow> m s = (Inl e, s') \<Longrightarrow> E s'"
  by (auto simp: hoareE_def)

lemma hoareE_returned: "hoareE P m Q E \<Longrightarrow> P s \<Longrightarrow> m s = (Inr x, s') \<Longrightarrow> Q x s'"
  by (auto simp: hoareE_def)


lemma hoareE_top: "hoareE P m (\<lambda>_ _. True) (\<lambda>_. True)"
  by (rule hoareE_I) simp_all

lemma hoareE_weaken:
  assumes "hoareE P' m Q' E'" and "\<And>s. P s \<Longrightarrow> P' s" and "\<And>x s. Q' x s \<Longrightarrow> Q x s"
    and "\<And>s. E' s \<Longrightarrow> E s"
  shows "hoareE P m Q E"
  using assms(2-4) hoareE_raised [OF assms(1)] hoareE_returned [OF assms(1)]
  by (intro hoareE_I) blast+

text \<open>Sequencing: the second computation starts where the first returned.\<close>

lemma hoareE_bnd:
  assumes m: "hoareE P m R E" and f: "\<And>x. hoareE (R x) (f x) Q E"
  shows "hoareE P (bnd m f) Q E"
proof (rule hoareE_I)
  fix s e s' assume P: "P s" and run: "bnd m f s = (Inl e, s')"
  obtain r s1 where ms: "m s = (r, s1)" by (cases "m s")
  show "E s'"
  proof (cases r)
    case (Inl e1)
    with ms run have "m s = (Inl e1, s')" by (simp add: bnd_def)
    then show ?thesis using hoareE_raised [OF m P] by blast
  next
    case (Inr x)
    with ms run have "f x s1 = (Inl e, s')" by (simp add: bnd_def)
    moreover have "R x s1" using hoareE_returned [OF m P] ms Inr by blast
    ultimately show ?thesis using hoareE_raised [OF f] by blast
  qed
next
  fix s y s' assume P: "P s" and run: "bnd m f s = (Inr y, s')"
  obtain r s1 where ms: "m s = (r, s1)" by (cases "m s")
  show "Q y s'"
  proof (cases r)
    case (Inl e1)
    with ms run show ?thesis by (simp add: bnd_def)
  next
    case (Inr x)
    with ms run have "f x s1 = (Inr y, s')" by (simp add: bnd_def)
    moreover have "R x s1" using hoareE_returned [OF m P] ms Inr by blast
    ultimately show ?thesis using hoareE_returned [OF f] by blast
  qed
qed

text \<open>
  The final block runs after a return and after an exception of the body; the statement
  returns only when both the body and the final block return.
\<close>

lemma hoareE_try_finally:
  assumes m: "hoareE P m R1 R2" and ok: "\<And>x. hoareE (R1 x) fin (\<lambda>_. Q x) E"
    and ex: "hoareE R2 fin (\<lambda>_. E) E"
  shows "hoareE P (try_finally m fin) Q E"
proof (rule hoareE_I)
  fix s e s' assume P: "P s" and run: "try_finally m fin s = (Inl e, s')"
  obtain r s1 where ms: "m s = (r, s1)" by (cases "m s")
  obtain r' s2 where fs: "fin s1 = (r', s2)" by (cases "fin s1")
  from run ms fs have s2: "s2 = s'" by (simp add: try_finally_def split: sum.splits)
  show "E s'"
  proof (cases r)
    case (Inl e1)
    then have "R2 s1" using hoareE_raised [OF m P] ms by blast
    then show ?thesis using fs s2 hoareE_raised [OF ex] hoareE_returned [OF ex]
      by (cases r') blast+
  next
    case (Inr x)
    then have "R1 x s1" using hoareE_returned [OF m P] ms by blast
    moreover from run ms fs Inr obtain e' where "r' = Inl e'"
      by (cases r') (simp_all add: try_finally_def)
    ultimately show ?thesis using fs s2 hoareE_raised [OF ok] by blast
  qed
next
  fix s y s' assume P: "P s" and run: "try_finally m fin s = (Inr y, s')"
  obtain r s1 where ms: "m s = (r, s1)" by (cases "m s")
  obtain r' s2 where fs: "fin s1 = (r', s2)" by (cases "fin s1")
  from run ms fs have "r = Inr y \<and> s2 = s' \<and> r' = Inr ()"
    by (cases r') (simp_all add: try_finally_def)
  then show "Q y s'"
    using hoareE_returned [OF m P] ms fs hoareE_returned [OF ok] by blast
qed

lemma hoareE_with_cursor:
  assumes "hoareE P (connection_cursor d c) R E"
    and "\<And>cur. hoareE (R cur) (body cur) R1 R2"
    and "\<And>cur x. hoareE (R1 x) (cursor_close d cur) (\<lambda>_. Q x) E"
    and "\<And>cur. hoareE R2 (cursor_close d cur) (\<lambda>_. E) E"
  shows "hoareE P (with_cursor d c body) Q E"
  unfolding with_cursor_def
  by (rule hoareE_bnd [OF assms(1)]) (rule hoareE_try_finally [OF assms(2) assms(3) assms(4)])

subsection \<open>Invariants\<close>

lemma preservesD: "preserves I m \<Longrightarrow> I s \<Longrightarrow> I (snd (m s))"
  by (simp add: preserves_def)

lemma preserves_hoareE: "preserves I m \<Longrightarrow> hoareE I m (\<lambda>_. I) (\<lambda>_. True)"
  by (rule hoareE_I) (auto dest: preservesD)

lemma preserves_ret: "preserves I (ret x)"
  by (simp add: preserves_def ret_def)

lemma preserves_raise: "preserves I (raise e)"
  by (simp add: preserves_def raise_def)

lemma preserves_bnd:
  assumes "preserves I m" and "\<And>x. preserves I (f x)"
  shows "preserves I (bnd m f)"
  unfolding preserves_def
proof (intro allI impI)
  fix s assume I: "I s"
  obtain r s1 where ms: "m s = (r, s1)" by (cases "m s")
  with preservesD [OF assms(1) I] have "I s1" by simp
  with ms preservesD [OF assms(2)] show "I (snd (bnd m f s))"
    by (cases r) (simp_all add: bnd_def)
qed

lemma snd_try_finally: "snd (try_finally m fin s) = snd (fin (snd (m s)))"
  by (simp add: try_finally_def split: prod.splits sum.splits)

lemma preserves_try_finally:
  assumes "preserves I m" and "preserves I fin"
  shows "preserves I (try_finally m fin)"
  using assms unfolding preserves_def by (simp add: snd_try_finally)

lemma preserves_with_cursor:
  assumes "preserves I (connection_cursor d c)" and "\<And>cur. preserves I (body cur)"
    and "\<And>cur. preserves I (cursor_close d cur)"
  shows "preserves I (with_cursor d c body)"
  unfolding with_cursor_def
  by (intro preserves_bnd preserves_try_finally assms)

subsection \<open>What the calls into the driver leave unchanged\<close>

lemma frame_connection_cursor: "frame (snd (connection_cursor d c s)) = frame s"
  by (simp add: frame_def commits_def connection_cursor_def record_event_def Let_def
      split: option.splits)

lemma frame_cursor_execute: "frame (snd (cursor_execute d cur q s)) = frame s"
  by (simp add: frame_def commits_def cursor_execute_def record_event_def Let_def
      split: pyval.splits sum.splits)

lemma frame_cursor_fetchall: "frame (snd (cursor_fetchall d cur s)) = frame s"
  by (simp add: frame_def commits_def cursor_fetchall_def record_event_def Let_def
      split: option.splits)

lemma frame_cursor_close: "frame (snd (cursor_close d cur s)) = frame s"
  by (simp add: frame_def commits_def cursor_close_def record_event_def Let_def
      split: option.splits)

lemmas frame_cursor_calls =
  frame_connection_cursor frame_cursor_execute frame_cursor_fetchall frame_cursor_close

lemma preserves_frame:
  assumes "\<And>s. frame (snd (m s)) = frame s"
    and "\<And>s s'. frame s' = frame s \<Longrightarrow> I s \<Longrightarrow> I s'"
  shows "preserves I m"
  unfolding preserves_def using assms by blast

section \<open>The connection of a call\<close>

lemma holds_connection_frame:
  "frame s' = frame s \<Longrightarrow> holds_connection base s \<Longrightarrow> holds_connection base s'"
  by (simp add: frame_def holds_connection_def)

lemma holds_connection_cursor_calls:
  "preserves (holds_connection base) (connection_cursor d c)"
  "preserves (holds_connection base) (cursor_execute d cur q)"
  "preserves (holds_connection base) (cursor_fetchall d cur)"
  "preserves (holds_connection base) (cursor_close d cur)"
  by (rule preserves_frame, rule frame_cursor_calls, erule (1) holds_connection_frame)+

lemma holds_connection_commit:
  "preserves (holds_connection base) (connection_commit d c)"
  by (simp add: preserves_def holds_connection_def connection_commit_def record_event_def
      Let_def split: option.splits)

text \<open>Closing the connection of the call leaves it closed, and still the last of the table.\<close>

lemma connection_close_closes:
  assumes "holds_connection base s"
  shows "conns (world (snd (connection_close (length base) s))) = base @ [Closed]"
    and "conn (snd (connection_close (length base) s)) = Some (length base)"
  using assms
  by (auto simp: holds_connection_def connection_close_def record_event_def Let_def)

lemma holds_connection_close:
  "preserves (holds_connection base) (connection_close (length base))"
  unfolding preserves_def
  by (auto simp: holds_connection_def connection_close_closes)

text \<open>\<^verbatim>\<open>__init_connection\<close> either raises and leaves the connections as they were, or opens one.\<close>

lemma init_connection_refused:
  assumes "\<not> connects d s"
  shows "\<exists>e s'. init_connection d s = (Inl e, s') \<and> conns (world s') = conns (world s) \<and>
           conn s' = conn s"
  using assms
  by (auto simp: connects_def init_connection_def get_authentication_config_def
      psycopg2_connect_def record_event_def bnd_def ret_def Let_def split: option.splits)

lemma init_connection_opened:
  assumes "connects d s"
  shows "\<exists>s'. init_connection d s = (Inr (length (conns (world s))), s') \<and>
           holds_connection (conns (world s)) s'"
  using assms
  by (auto simp: connects_def init_connection_def get_authentication_config_def
      psycopg2_connect_def record_event_def bnd_def ret_def Let_def holds_connection_def
      split: option.splits)

text \<open>
  The shape shared by \<^verbatim>\<open>query\<close> and \<^verbatim>\<open>notify\<close>: open a connection, run a body under
  \<^verbatim>\<open>try\<close>, close the connection in \<^verbatim>\<open>finally\<close>.
\<close>

lemma call_with_connection:
  assumes body: "\<And>base. preserves (holds_connection base) (body (length base))"
  shows "conns (world (snd (bnd (init_connection d)
             (\<lambda>c. try_finally (body c) (connection_close c)) s)))
           = conns (world s) @ (if connects d s then [Closed] else [])"
    and "conn (snd (bnd (init_connection d)
             (\<lambda>c. try_finally (body c) (connection_close c)) s))
           = (if connects d s then Some (length (conns (world s))) else conn s)"
proof -
  let ?call = "bnd (init_connection d) (\<lambda>c. try_finally (body c) (connection_close c))"
  let ?base = "conns (world s)"
  have "conns (world (snd (?call s))) = ?base @ (if connects d s then [Closed] else []) \<and>
        conn (snd (?call s)) = (if connects d s then Some (length ?base) else conn s)"
  proof (cases "connects d s")
    case False
    from init_connection_refused [OF this] obtain e s'
      where "init_connection d s = (Inl e, s')" "conns (world s') = ?base" "conn s' = conn s"
      by blast
    with False show ?thesis by (simp add: bnd_def)
  next
    case True
    from init_connection_opened [OF this] obtain s1
      where run: "init_connection d s = (Inr (length ?base), s1)"
        and s1: "holds_connection ?base s1"
      by blast
    from preservesD [OF body s1]
    have "holds_connection ?base (snd (body (length ?base) s1))" .
    from connection_close_closes [OF this] run True show ?thesis
      by (simp add: bnd_def snd_try_finally)
  qed
  then show "conns (world (snd (?call s))) = ?base @ (if connects d s then [Closed] else [])"
    and "conn (snd (?call s)) = (if connects d s then Some (length ?base) else conn s)"
    by simp_all
qed

lemma query_accepted:
  assumes "truthy (dict_get kwargs ''query'')"
  shows "query d kwargs
           = bnd (init_connection d) (\<lambda>c.
               try_finally (query_block d (dict_get kwargs ''query'') c) (connection_close c))"
  using assms by (simp add: query_def query_block_def)

lemma notify_accepted:
  assumes "truthy (dict_get kwargs ''query'')"
  shows "notify d kwargs
           = bnd (init_connection d) (\<lambda>c.
               try_finally (notify_block d (dict_get kwargs ''query'') c) (connection_close c))"
  using assms by (simp add: notify_def notify_block_def)

lemma holds_connection_query_block:
  "preserves (holds_connection base) (query_block d q (length base))"
  unfolding query_block_def
  by (intro preserves_bnd preserves_with_cursor preserves_ret
      holds_connection_cursor_calls holds_connection_close)

lemma holds_connection_notify_block:
  "preserves (holds_connection base) (notify_block d q (length base))"
  unfolding notify_block_def
  by (intro preserves_bnd preserves_with_cursor preserves_ret
      holds_connection_cursor_calls holds_connection_commit holds_connection_close)

text \<open>The definitions that a run on concrete inputs unfolds.\<close>

lemmas run_defs =
  query_def notify_def init_connection_def get_authentication_config_def
  psycopg2_connect_def connection_cursor_def cursor_execute_def cursor_fetchall_def
  cursor_close_def connection_commit_def connection_close_def record_event_def
  ret_def raise_def bnd_def try_finally_def with_cursor_def dict_get_def Let_def

lemmas sample_defs =
  reliable_driver_def rejecting_driver_def sample_provider_def sample_config_def init_def
  empty_world_def

text \<open>
  C1. A call of \<^verbatim>\<open>query\<close> or \<^verbatim>\<open>notify\<close> whose statement passes the precondition leaves
  every connection that existed before as it was and adds at most one connection to
  the table, the one it opened, which is closed when the call returns or raises,
  whatever the driver raised in between. The connection stored in the provider is then
  that closed connection; when the connection could not be opened, nothing is added and
  the stored connection is not assigned.
\<close>

theorem connection_closed_on_every_exit:
  assumes "truthy (dict_get kwargs ''query'')"
  shows "conns (world (snd (query d kwargs s)))
           = conns (world s) @ (if connects d s then [Closed] else []) \<and>
         conn (snd (query d kwargs s))
           = (if connects d s then Some (length (conns (world s))) else conn s) \<and>
         conns (world (snd (notify d kwargs s)))
           = conns (world s) @ (if connects d s then [Closed] else []) \<and>
         conn (snd (notify d kwargs s))
           = (if connects d s then Some (length (conns (world s))) else conn s)"
  unfolding query_accepted [OF assms] notify_accepted [OF assms]
  using call_with_connection [of "query_block d (dict_get kwargs ''query'')" d s,
          OF holds_connection_query_block]
    call_with_connection [of "notify_block d (dict_get kwargs ''query'')" d s,
          OF holds_connection_notify_block]
  by simp

theorem connection_closed_on_every_exit_witness:
  "truthy (dict_get [(''query'', PyStr ''select 1'')] ''query'') \<and>
   fst (query rejecting_driver [(''query'', PyStr ''select 1'')] sample_provider)
     = Inl (DriverError ''syntax error'') \<and>
   conns (world (snd (query rejecting_driver [(''query'', PyStr ''select 1'')] sample_provider)))
     = [Closed] \<and>
   conn (snd (query rejecting_driver [(''query'', PyStr ''select 1'')] sample_provider)) = Some 0 \<and>
   conns (world (snd (notify rejecting_driver [(''query'', PyStr ''select 1'')] sample_provider)))
     = [Closed] \<and>
   conn (snd (notify rejecting_driver [(''query'', PyStr ''select 1'')] sample_provider)) = Some 0"
proof -
  have t: "truthy (dict_get [(''query'', PyStr ''select 1'')] ''query'')"
    by (simp add: dict_get_def)
  have c: "connects rejecting_driver sample_provider"
    by (simp add: connects_def sample_defs)
  have e: "fst (query rejecting_driver [(''query'', PyStr ''select 1'')] sample_provider)
     = Inl (DriverError ''syntax error'')"
    by (simp add: run_defs sample_defs)
  have w: "conns (world sample_provider) = []"
    by (simp add: sample_defs)
  from connection_closed_on_every_exit [OF t, of rejecting_driver sample_provider] t c e w
  show ?thesis by simp
qed

section \<open>Commits\<close>

lemma commits_frame: "frame s' = frame s \<Longrightarrow> commits s = c \<Longrightarrow> commits s' = c"
  by (simp add: frame_def)

lemma commits_cursor_calls:
  "preserves (\<lambda>s. commits s = c) (connection_cursor d h)"
  "preserves (\<lambda>s. commits s = c) (cursor_execute d cur q)"
  "preserves (\<lambda>s. commits s = c) (cursor_fetchall d cur)"
  "preserves (\<lambda>s. commits s = c) (cursor_close d cur)"
  by (rule preserves_frame, rule frame_cursor_calls, erule (1) commits_frame)+

lemma commits_connection_close: "preserves (\<lambda>s. commits s = c) (connection_close h)"
  by (simp add: preserves_def commits_def connection_close_def record_event_def Let_def)

lemma commits_init_connection: "preserves (\<lambda>s. commits s = c) (init_connection d)"
  by (simp add: preserves_def commits_def init_connection_def get_authentication_config_def
      psycopg2_connect_def record_event_def bnd_def ret_def Let_def split: option.splits)

text \<open>A commit is recorded once by \<^verbatim>\<open>conn.commit()\<close>, and by nothing else.\<close>

lemma connection_commit_commits:
  "commits (snd (connection_commit d h s)) = commits s @ [Commit h]"
  by (simp add: commits_def connection_commit_def record_event_def Let_def split: option.splits)

lemma query_never_commits: "preserves (\<lambda>s. commits s = c) (query d kwargs)"
proof (cases "truthy (dict_get kwargs ''query'')")
  case False
  then have "query d kwargs = raise (ValueError ''Query is required'')"
    by (simp add: query_def)
  then show ?thesis by (simp add: preserves_raise)
next
  case True
  show ?thesis
    unfolding query_accepted [OF True] query_block_def
    by (intro preserves_bnd preserves_try_finally preserves_with_cursor preserves_ret
        commits_cursor_calls commits_connection_close commits_init_connection)
qed

text \<open>
  When the block of \<^verbatim>\<open>notify\<close> and the final close both return, the commit of the
  connection has been recorded, once.
\<close>

lemma notify_block_commits:
  "hoareE (\<lambda>s. commits s = c)
     (try_finally (notify_block d q h) (connection_close h))
     (\<lambda>_ s. commits s = c @ [Commit h]) (\<lambda>_. True)"
proof -
  let ?before = "\<lambda>s. commits s = c"
  let ?after = "\<lambda>s. commits s = c @ [Commit h]"
  note before = commits_cursor_calls [of c, THEN preserves_hoareE]
  have commit: "hoareE ?before (connection_commit d h) (\<lambda>_. ?after) (\<lambda>_. True)"
  proof (rule hoareE_I)
    fix s x s' assume "commits s = c" and "connection_commit d h s = (Inr x, s')"
    with connection_commit_commits [of d h s] show "commits s' = c @ [Commit h]" by simp
  qed simp
  have close: "hoareE ?after (connection_close h) (\<lambda>_. ?after) (\<lambda>_. True)"
    by (rule preserves_hoareE [OF commits_connection_close])
  have cursor_close: "hoareE ?after (cursor_close d cur) (\<lambda>_. ?after) (\<lambda>_. True)" for cur
    by (rule preserves_hoareE [OF commits_cursor_calls(4)])
  have statements: "hoareE ?before
      (bnd (connection_cursor d h) (\<lambda>cur.
       bnd (cursor_execute d cur q) (\<lambda>_.
       bnd (cursor_close d cur) (\<lambda>_.
       bnd (connection_commit d h) (\<lambda>_.
       connection_close h)))))
      (\<lambda>_. ?after) (\<lambda>_. True)"
    by (rule hoareE_bnd [OF before(1)], rule hoareE_bnd [OF before(2)],
        rule hoareE_bnd [OF before(4)], rule hoareE_bnd [OF commit], rule close)
  have block: "hoareE ?before (notify_block d q h) (\<lambda>_. ?after) (\<lambda>_. True)"
    unfolding notify_block_def
    by (rule hoareE_with_cursor [OF before(1) statements cursor_close hoareE_top])
  show ?thesis
    by (rule hoareE_try_finally [OF block close hoareE_top])
qed

lemma notify_returned_commits:
  assumes "notify d kwargs s = (Inr (), s')"
  shows "commits s' = commits s @ [Commit (length (conns (world s)))]"
    and "conn s' = Some (length (conns (world s)))"
proof -
  have t: "truthy (dict_get kwargs ''query'')"
  proof (rule ccontr)
    assume "\<not> truthy (dict_get kwargs ''query'')"
    from notify_rejects [OF this, of d s] assms show False by simp
  qed
  have c: "connects d s"
  proof (rule ccontr)
    assume "\<not> connects d s"
    from init_connection_refused [OF this] obtain e s1
      where "init_connection d s = (Inl e, s1)" by blast
    with assms show False by (simp add: notify_accepted [OF t] bnd_def)
  qed
  let ?h = "length (conns (world s))"
  let ?q = "dict_get kwargs ''query''"
  from init_connection_opened [OF c] obtain s1
    where run: "init_connection d s = (Inr ?h, s1)" by blast
  have "preserves (\<lambda>s'. commits s' = commits s) (init_connection d)"
    by (rule commits_init_connection)
  from preservesD [OF this] run have s1: "commits s1 = commits s" by fastforce
  from assms run
  have "try_finally (notify_block d ?q ?h) (connection_close ?h) s1 = (Inr (), s')"
    by (simp add: notify_accepted [OF t] bnd_def)
  from hoareE_returned [OF notify_block_commits s1 this]
  show "commits s' = commits s @ [Commit ?h]" .
  from call_with_connection(2) [of "notify_block d ?q" d s, OF holds_connection_notify_block]
    c assms
  show "conn s' = Some ?h" by (simp add: notify_accepted [OF t])
qed

subsection \<open>The calls of a run that returns\<close>

text \<open>A sequence returns only when each of its parts returns, one after the other.\<close>

lemma bnd_returned:
  assumes "bnd m f s = (Inr y, s')"
  obtains x s1 where "m s = (Inr x, s1)" and "f x s1 = (Inr y, s')"
proof (cases "m s")
  case (Pair r s1)
  with assms that show ?thesis by (cases r) (simp_all add: bnd_def)
qed

lemma try_finally_returned:
  assumes "try_finally m fin s = (Inr y, s')"
  obtains s1 where "m s = (Inr y, s1)" and "fin s1 = (Inr (), s')"
proof (cases "m s")
  case (Pair r s1)
  obtain r' s2 where fs: "fin s1 = (r', s2)" by (cases "fin s1")
  from assms Pair fs have "r = Inr y \<and> s2 = s' \<and> r' = Inr ()"
    by (cases r') (simp_all add: try_finally_def)
  with Pair fs that show ?thesis by simp
qed

text \<open>
  What each call into the driver has done when it returns: the event it has recorded,
  the cursor it has created, and the number of cursors it leaves.
\<close>

lemma init_connection_returned:
  assumes "init_connection d s = (Inr h, s')"
  shows "h = length (conns (world s))"
    and "events (world s') = events (world s) @ [Connect]"
    and "length (cursors (world s')) = length (cursors (world s))"
  using assms
  by (auto simp: init_connection_def get_authentication_config_def psycopg2_connect_def
      record_event_def bnd_def ret_def Let_def split: option.splits)

lemma connection_cursor_returned:
  assumes "connection_cursor d h s = (Inr cur, s')"
  shows "cur = length (cursors (world s))"
    and "events (world s') = events (world s) @ [Cursor h]"
    and "length (cursors (world s')) = Suc (length (cursors (world s)))"
  using assms
  by (auto simp: connection_cursor_def record_event_def Let_def split: option.splits)

lemma cursor_execute_returned:
  assumes "cursor_execute d cur (PyStr sql) s = (Inr x, s')"
  shows "events (world s') = events (world s) @ [Execute cur sql]"
    and "length (cursors (world s')) = length (cursors (world s))"
  using assms
  by (auto simp: cursor_execute_def record_event_def Let_def split: sum.splits)

lemma cursor_fetchall_returned:
  assumes "cursor_fetchall d cur s = (Inr rows, s')"
  shows "events (world s') = events (world s) @ [Fetchall cur]"
    and "length (cursors (world s')) = length (cursors (world s))"
  using assms
  by (auto simp: cursor_fetchall_def record_event_def Let_def
      split: option.splits if_splits)

lemma cursor_close_returned:
  assumes "cursor_close d cur s = (Inr x, s')"
  shows "events (world s') = events (world s) @ [CursorClose cur]"
    and "length (cursors (world s')) = length (cursors (world s))"
  using assms
  by (auto simp: cursor_close_def record_event_def Let_def split: option.splits)

lemma connection_commit_returned:
  assumes "connection_commit d h s = (Inr x, s')"
  shows "events (world s') = events (world s) @ [Commit h]"
    and "length (cursors (world s')) = length (cursors (world s))"
  using assms
  by (auto simp: connection_commit_def record_event_def Let_def split: option.splits)

lemma connection_close_returned:
  assumes "connection_close h s = (Inr x, s')"
  shows "events (world s') = events (world s) @ [Close h]"
    and "length (cursors (world s')) = length (cursors (world s))"
  using assms
  by (auto simp: connection_close_def record_event_def Let_def)

text \<open>
  The calls that the driver receives from a \<^verbatim>\<open>notify\<close> that returns, all of them and in
  order: the statement is executed on the second cursor of the new connection, that
  cursor is closed, the connection is committed and closed, then the \<^verbatim>\<open>with\<close> statement
  closes its cursor and \<^verbatim>\<open>finally\<close> closes the connection again.
\<close>

lemma notify_returned_events:
  assumes run: "notify d kwargs s = (Inr (), s')"
    and q: "dict_get kwargs ''query'' = PyStr sql"
  shows "events (world s') = events (world s) @
           [Connect, Cursor (length (conns (world s))), Cursor (length (conns (world s))),
            Execute (Suc (length (cursors (world s)))) sql,
            CursorClose (Suc (length (cursors (world s)))),
            Commit (length (conns (world s))), Close (length (conns (world s))),
            CursorClose (length (cursors (world s))), Close (length (conns (world s)))]"
proof -
  have t: "truthy (dict_get kwargs ''query'')"
  proof (rule ccontr)
    assume "\<not> truthy (dict_get kwargs ''query'')"
    from notify_rejects [OF this, of d s] run show False by simp
  qed
  from run obtain h s1 where 1: "init_connection d s = (Inr h, s1)"
    and "try_finally (notify_block d (PyStr sql) h) (connection_close h) s1 = (Inr (), s')"
    unfolding notify_accepted [OF t] q by (rule bnd_returned)
  then obtain s8 where "notify_block d (PyStr sql) h s1 = (Inr (), s8)"
    and 9: "connection_close h s8 = (Inr (), s')"
    by (elim try_finally_returned)
  then obtain c1 s2 where 2: "connection_cursor d h s1 = (Inr c1, s2)"
    and "try_finally
           (bnd (connection_cursor d h) (\<lambda>cur.
            bnd (cursor_execute d cur (PyStr sql)) (\<lambda>_.
            bnd (cursor_close d cur) (\<lambda>_.
            bnd (connection_commit d h) (\<lambda>_.
            connection_close h)))))
           (cursor_close d c1) s2 = (Inr (), s8)"
    unfolding notify_block_def with_cursor_def by (elim bnd_returned)
  then obtain s7 where "bnd (connection_cursor d h) (\<lambda>cur.
            bnd (cursor_execute d cur (PyStr sql)) (\<lambda>_.
            bnd (cursor_close d cur) (\<lambda>_.
            bnd (connection_commit d h) (\<lambda>_.
            connection_close h)))) s2 = (Inr (), s7)"
    and 8: "cursor_close d c1 s7 = (Inr (), s8)"
    by (elim try_finally_returned)
  then obtain c2 s3 x4 s4 x5 s5 x6 s6
    where 3: "connection_cursor d h s2 = (Inr c2, s3)"
      and 4: "cursor_execute d c2 (PyStr sql) s3 = (Inr x4, s4)"
      and 5: "cursor_close d c2 s4 = (Inr x5, s5)"
      and 6: "connection_commit d h s5 = (Inr x6, s6)"
      and 7: "connection_close h s6 = (Inr (), s7)"
    by (elim bnd_returned)
  note facts =
    init_connection_returned [OF 1] connection_cursor_returned [OF 2]
    connection_cursor_returned [OF 3] cursor_execute_returned [OF 4]
    cursor_close_returned [OF 5] connection_commit_returned [OF 6]
    connection_close_returned [OF 7] cursor_close_returned [OF 8]
    connection_close_returned [OF 9]
  show ?thesis by (simp add: facts)
qed

text \<open>The same for \<^verbatim>\<open>query\<close>: it fetches where \<^verbatim>\<open>notify\<close> commits, and nothing else differs.\<close>

lemma query_returned_events:
  assumes run: "query d kwargs s = (Inr rows, s')"
    and q: "dict_get kwargs ''query'' = PyStr sql"
  shows "events (world s') = events (world s) @
           [Connect, Cursor (length (conns (world s))), Cursor (length (conns (world s))),
            Execute (Suc (length (cursors (world s)))) sql,
            Fetchall (Suc (length (cursors (world s)))),
            CursorClose (Suc (length (cursors (world s)))),
            Close (length (conns (world s))),
            CursorClose (length (cursors (world s))), Close (length (conns (world s)))]"
proof -
  have t: "truthy (dict_get kwargs ''query'')"
  proof (rule ccontr)
    assume "\<not> truthy (dict_get kwargs ''query'')"
    from query_rejects [OF this, of d s] run show False by simp
  qed
  from run obtain h s1 where 1: "init_connection d s = (Inr h, s1)"
    and "try_finally (query_block d (PyStr sql) h) (connection_close h) s1 = (Inr rows, s')"
    unfolding query_accepted [OF t] q by (rule bnd_returned)
  then obtain s9 where "query_block d (PyStr sql) h s1 = (Inr rows, s9)"
    and 10: "connection_close h s9 = (Inr (), s')"
    by (elim try_finally_returned)
  then obtain results s8 where "with_cursor d h (\<lambda>_.
             bnd (connection_cursor d h) (\<lambda>cur.
             bnd (cursor_execute d cur (PyStr sql)) (\<lambda>_.
             bnd (cursor_fetchall d cur) (\<lambda>results.
             bnd (cursor_close d cur) (\<lambda>_.
             bnd (connection_close h) (\<lambda>_.
             ret results)))))) s1 = (Inr results, s8)"
    and "ret results s8 = (Inr rows, s9)"
    unfolding query_block_def by (elim bnd_returned)
  then obtain c1 s2 where s9: "s9 = s8"
    and 2: "connection_cursor d h s1 = (Inr c1, s2)"
    and "try_finally
           (bnd (connection_cursor d h) (\<lambda>cur.
            bnd (cursor_execute d cur (PyStr sql)) (\<lambda>_.
            bnd (cursor_fetchall d cur) (\<lambda>results.
            bnd (cursor_close d cur) (\<lambda>_.
            bnd (connection_close h) (\<lambda>_.
            ret results))))))
           (cursor_close d c1) s2 = (Inr results, s8)"
    unfolding with_cursor_def by (elim bnd_returned) (simp add: ret_def)
  then obtain s7 where "bnd (connection_cursor d h) (\<lambda>cur.
            bnd (cursor_execute d cur (PyStr sql)) (\<lambda>_.
            bnd (cursor_fetchall d cur) (\<lambda>results.
            bnd (cursor_close d cur) (\<lambda>_.
            bnd (connection_close h) (\<lambda>_.
            ret results))))) s2 = (Inr results, s7)"
    and 9: "cursor_close d c1 s7 = (Inr (), s8)"
    by (elim try_finally_returned)
  then obtain c2 s3 x4 s4 fetched s5 x6 s6 x7 s7'
    where 3: "connection_cursor d h s2 = (Inr c2, s3)"
      and 4: "cursor_execute d c2 (PyStr sql) s3 = (Inr x4, s4)"
      and 5: "cursor_fetchall d c2 s4 = (Inr fetched, s5)"
      and 6: "cursor_close d c2 s5 = (Inr x6, s6)"
      and 7: "connection_close h s6 = (Inr x7, s7')"
      and "ret fetched s7' = (Inr results, s7)"
    by (elim bnd_returned)
  then have s7: "s7' = s7" by (simp add: ret_def)
  note facts =
    init_connection_returned [OF 1] connection_cursor_returned [OF 2]
    connection_cursor_returned [OF 3] cursor_execute_returned [OF 4]
    cursor_fetchall_returned [OF 5] cursor_close_returned [OF 6]
    connection_close_returned [OF 7 [unfolded s7]] cursor_close_returned [OF 9]
    connection_close_returned [OF 10 [unfolded s9]]
  show ?thesis by (simp add: facts)
qed

text \<open>When the server rejects the statement, \<^verbatim>\<open>notify\<close> records no commit.\<close>

lemma cursor_execute_rejected:
  assumes "\<forall>c w. \<exists>e. on_execute d c sql w = Inl e"
  shows "hoareE (\<lambda>s. commits s = c) (cursor_execute d cur (PyStr sql))
           (\<lambda>_ _. False) (\<lambda>s. commits s = c)"
proof (rule hoareE_I)
  fix s e s' assume c: "commits s = c" and run: "cursor_execute d cur (PyStr sql) s = (Inl e, s')"
  have "preserves (\<lambda>s. commits s = c) (cursor_execute d cur (PyStr sql))"
    by (rule commits_cursor_calls)
  from preservesD [OF this c] run show "commits s' = c" by simp
next
  fix s x s' assume run: "cursor_execute d cur (PyStr sql) s = (Inr x, s')"
  from assms obtain e where "on_execute d cur sql (world s) = Inl e" by blast
  with run show False by (simp add: cursor_execute_def Let_def)
qed

lemma hoareE_False: "hoareE (\<lambda>_. False) m Q E"
  by (rule hoareE_I) simp_all

lemma preserves_hoareE_same: "preserves I m \<Longrightarrow> hoareE I m (\<lambda>_. I) I"
  by (rule hoareE_I) (auto dest: preservesD)

lemma notify_rejected_no_commit:
  assumes rejected: "\<forall>c w. \<exists>e. on_execute d c sql w = Inl e"
    and q: "dict_get kwargs ''query'' = PyStr sql"
  shows "commits (snd (notify d kwargs s)) = commits s"
proof (cases "truthy (dict_get kwargs ''query'')")
  case False
  then show ?thesis by (simp add: notify_rejects)
next
  case True
  let ?same = "\<lambda>s'. commits s' = commits s"
  note cursor_calls = commits_cursor_calls [of "commits s", THEN preserves_hoareE_same]
  have close: "hoareE ?same (connection_close h) (\<lambda>_. ?same) ?same" for h
    by (rule preserves_hoareE_same [OF commits_connection_close])
  have statements: "hoareE ?same
      (bnd (connection_cursor d h) (\<lambda>cur.
       bnd (cursor_execute d cur (PyStr sql)) (\<lambda>_.
       bnd (cursor_close d cur) (\<lambda>_.
       bnd (connection_commit d h) (\<lambda>_.
       connection_close h)))))
      (\<lambda>_. ?same) ?same" for h
    by (rule hoareE_bnd [OF cursor_calls(1)],
        rule hoareE_bnd [OF cursor_execute_rejected [OF rejected]], rule hoareE_False)
  have block: "hoareE ?same (notify_block d (PyStr sql) h) (\<lambda>_. ?same) ?same" for h
    unfolding notify_block_def
    by (rule hoareE_with_cursor [OF cursor_calls(1) statements cursor_calls(4) cursor_calls(4)])
  have call: "hoareE ?same
      (try_finally (notify_block d (PyStr sql) h) (connection_close h)) (\<lambda>_. ?same) ?same" for h
    by (rule hoareE_try_finally [OF block close close])
  have "hoareE ?same (notify d kwargs) (\<lambda>_. ?same) ?same"
    unfolding notify_accepted [OF True] q
    by (rule hoareE_bnd [OF preserves_hoareE_same [OF commits_init_connection]]) (rule call)
  then show ?thesis
    by (cases "notify d kwargs s") (auto simp: hoareE_def split: sum.splits)
qed

text \<open>
  C5. For a statement \<open>sql\<close> given as the keyword \<open>query\<close>:
  \<^item> \<^verbatim>\<open>query\<close> never commits, on any path;
  \<^item> a call of \<^verbatim>\<open>notify\<close> that returns has made exactly these calls into the driver, in
    this order: connect, two cursors on the new connection, the execution of \<open>sql\<close> on
    the second cursor, the close of that cursor, one commit of the connection, then the
    closes; so the commit comes after the execution of the statement, on the connection
    that executed it, which is the one stored in the provider; its value is \<^verbatim>\<open>None\<close>
    (the unit value);
  \<^item> a call of \<^verbatim>\<open>query\<close> that returns has made the same calls with \<^verbatim>\<open>fetchall\<close> on the
    second cursor after the execution, and no commit;
  \<^item> when the server rejects the statement, \<^verbatim>\<open>notify\<close> commits nothing;
  \<^item> both reject the empty statement with the same error.
\<close>

theorem notify_executes_then_commits_once:
  assumes "dict_get kwargs ''query'' = PyStr sql"
  shows "commits (snd (query d kwargs s)) = commits s \<and>
    (fst (notify d kwargs s) = Inr () \<longrightarrow>
       events (world (snd (notify d kwargs s))) = events (world s) @
         [Connect, Cursor (length (conns (world s))), Cursor (length (conns (world s))),
          Execute (Suc (length (cursors (world s)))) sql,
          CursorClose (Suc (length (cursors (world s)))),
          Commit (length (conns (world s))), Close (length (conns (world s))),
          CursorClose (length (cursors (world s))), Close (length (conns (world s)))] \<and>
       commits (snd (notify d kwargs s)) = commits s @ [Commit (length (conns (world s)))] \<and>
       conn (snd (notify d kwargs s)) = Some (length (conns (world s)))) \<and>
    (\<forall>rows. fst (query d kwargs s) = Inr rows \<longrightarrow>
       events (world (snd (query d kwargs s))) = events (world s) @
         [Connect, Cursor (length (conns (world s))), Cursor (length (conns (world s))),
          Execute (Suc (length (cursors (world s)))) sql,
          Fetchall (Suc (length (cursors (world s)))),
          CursorClose (Suc (length (cursors (world s)))),
          Close (length (conns (world s))),
          CursorClose (length (cursors (world s))), Close (length (conns (world s)))]) \<and>
    ((\<forall>c w. \<exists>e. on_execute d c sql w = Inl e) \<longrightarrow>
       commits (snd (notify d kwargs s)) = commits s) \<and>
    (sql = [] \<longrightarrow>
       query d kwargs s = (Inl (ValueError ''Query is required''), s) \<and>
       notify d kwargs s = (Inl (ValueError ''Query is required''), s))"
proof (intro conjI impI allI)
  have "preserves (\<lambda>s'. commits s' = commits s) (query d kwargs)"
    by (rule query_never_commits)
  from preservesD [OF this] show "commits (snd (query d kwargs s)) = commits s" by simp
next
  assume "fst (notify d kwargs s) = Inr ()"
  then have run: "notify d kwargs s = (Inr (), snd (notify d kwargs s))"
    by (simp add: prod_eq_iff)
  from notify_returned_events [OF run assms]
  show "events (world (snd (notify d kwargs s))) = events (world s) @
         [Connect, Cursor (length (conns (world s))), Cursor (length (conns (world s))),
          Execute (Suc (length (cursors (world s)))) sql,
          CursorClose (Suc (length (cursors (world s)))),
          Commit (length (conns (world s))), Close (length (conns (world s))),
          CursorClose (length (cursors (world s))), Close (length (conns (world s)))]" .
  from notify_returned_commits [OF run]
  show "commits (snd (notify d kwargs s)) = commits s @ [Commit (length (conns (world s)))]"
    and "conn (snd (notify d kwargs s)) = Some (length (conns (world s)))" .
next
  fix rows assume "fst (query d kwargs s) = Inr rows"
  then have run: "query d kwargs s = (Inr rows, snd (query d kwargs s))"
    by (simp add: prod_eq_iff)
  from query_returned_events [OF run assms]
  show "events (world (snd (query d kwargs s))) = events (world s) @
         [Connect, Cursor (length (conns (world s))), Cursor (length (conns (world s))),
          Execute (Suc (length (cursors (world s)))) sql,
          Fetchall (Suc (length (cursors (world s)))),
          CursorClose (Suc (length (cursors (world s)))),
          Close (length (conns (world s))),
          CursorClose (length (cursors (world s))), Close (length (conns (world s)))]" .
next
  assume "\<forall>c w. \<exists>e. on_execute d c sql w = Inl e"
  from notify_rejected_no_commit [OF this assms]
  show "commits (snd (notify d kwargs s)) = commits s" .
next
  assume "sql = []"
  with assms have "\<not> truthy (dict_get kwargs ''query'')" by simp
  then show "query d kwargs s = (Inl (ValueError ''Query is required''), s)"
    and "notify d kwargs s = (Inl (ValueError ''Query is required''), s)"
    by (simp_all add: query_rejects notify_rejects)
qed

theorem notify_executes_then_commits_once_witness:
  "dict_get [(''query'', PyStr ''insert into t values (1)'')] ''query''
     = PyStr ''insert into t values (1)'' \<and>
   fst (notify (reliable_driver None) [(''query'', PyStr ''insert into t values (1)'')]
          sample_provider) = Inr () \<and>
   events (world (snd (notify (reliable_driver None)
          [(''query'', PyStr ''insert into t values (1)'')] sample_provider)))
     = [Connect, Cursor 0, Cursor 0, Execute 1 ''insert into t values (1)'', CursorClose 1,
        Commit 0, Close 0, CursorClose 0, Close 0] \<and>
   commits (snd (query (reliable_driver None) [(''query'', PyStr ''insert into t values (1)'')]
          sample_provider)) = [] \<and>
   commits (snd (notify rejecting_driver [(''query'', PyStr ''insert into t values (1)'')]
          sample_provider)) = []"
proof -
  have g: "dict_get [(''query'', PyStr ''insert into t values (1)'')] ''query''
     = PyStr ''insert into t values (1)''"
    by (simp add: dict_get_def)
  have r: "fst (notify (reliable_driver None) [(''query'', PyStr ''insert into t values (1)'')]
          sample_provider) = Inr ()"
    by (simp add: run_defs sample_defs)
  have c: "commits sample_provider = []" "conns (world sample_provider) = []"
    "cursors (world sample_provider) = []" "events (world sample_provider) = []"
    by (simp_all add: commits_def sample_defs)
  have j: "\<forall>c w. \<exists>e. on_execute rejecting_driver c ''insert into t values (1)'' w = Inl e"
    by (simp add: sample_defs)
  from notify_executes_then_commits_once [OF g, of "reliable_driver None" sample_provider]
    notify_executes_then_commits_once [OF g, of rejecting_driver sample_provider]
    g r c j
  show ?thesis by simp
qed

section \<open>The rows that a query returns\<close>










end
